theory Spec2Isabelle
  imports Main
begin

section \<open>Python values used by the converter\<close>

text \<open>
  A Python \<open>str\<close> is a \<open>string\<close> whose characters are code points below 256; \<open>None\<close> is
  the \<open>None\<close> of an option type. Exceptions are values: a function that may raise returns
  \<open>exn + 'a\<close>, with \<open>Inl\<close> for the exception.
\<close>

datatype exn =
    XMLSyntaxError string
  | XPathEvalError string
  | TypeError string
  | ValueError string
  | OtherException string

fun exn_str :: "exn \<Rightarrow> string" where
  "exn_str (XMLSyntaxError m) = m"
| "exn_str (XPathEvalError m) = m"
| "exn_str (TypeError m) = m"
| "exn_str (ValueError m) = m"
| "exn_str (OtherException m) = m"

definition bind_exn :: "exn + 'a \<Rightarrow> ('a \<Rightarrow> exn + 'b) \<Rightarrow> exn + 'b" where
  "bind_exn m f = (case m of Inl e \<Rightarrow> Inl e | Inr x \<Rightarrow> f x)"

text \<open>A \<open>for\<close> loop that appends one computed item per element and stops at the first raise.\<close>

fun map_exn :: "('a \<Rightarrow> exn + 'b) \<Rightarrow> 'a list \<Rightarrow> exn + 'b list" where
  "map_exn f [] = Inr []"
| "map_exn f (x # xs) =
     bind_exn (f x) (\<lambda>y. bind_exn (map_exn f xs) (\<lambda>ys. Inr (y # ys)))"

text \<open>A \<open>for\<close> loop that updates an accumulator and stops at the first raise.\<close>

fun fold_exn :: "('a \<Rightarrow> 's \<Rightarrow> exn + 's) \<Rightarrow> 'a list \<Rightarrow> 's \<Rightarrow> exn + 's" where
  "fold_exn f [] s = Inr s"
| "fold_exn f (x # xs) s = bind_exn (f x s) (fold_exn f xs)"

text \<open>Truthiness of \<open>str | None\<close>, and \<open>a or b\<close> on such values.\<close>

fun truthy :: "string option \<Rightarrow> bool" where
  "truthy None = False"
| "truthy (Some s) = (s \<noteq> [])"

definition py_or :: "string option \<Rightarrow> string option \<Rightarrow> string option" where
  "py_or a b = (if truthy a then a else b)"

text \<open>\<open>str(x)\<close> inside an f-string, for \<open>x\<close> a \<open>str\<close> or \<open>None\<close>.\<close>

fun fstr :: "string option \<Rightarrow> string" where
  "fstr None = ''None''"
| "fstr (Some s) = s"

text \<open>\<open>str.lower()\<close> on code points below 256: the ASCII capitals and the Latin-1 capitals
  (\<open>0xC0\<close> to \<open>0xDE\<close> without the multiplication sign \<open>0xD7\<close>) move up by 32.\<close>

definition lower_char :: "char \<Rightarrow> char" where
  "lower_char c =
     (let n = (of_char c :: nat)
      in if (65 \<le> n \<and> n \<le> 90) \<or> (192 \<le> n \<and> n \<le> 222 \<and> n \<noteq> 215)
         then char_of (n + 32) else c)"

definition lower :: "string \<Rightarrow> string" where
  "lower s = map lower_char s"

text \<open>\<open>s.split(sep)\<close> for a one-character separator: never empty, one more piece than
  there are separators.\<close>

fun split_on :: "char \<Rightarrow> string \<Rightarrow> string list" where
  "split_on sep [] = [[]]"
| "split_on sep (c # cs) =
     (if c = sep then [] # split_on sep cs
      else (c # hd (split_on sep cs)) # tl (split_on sep cs))"

text \<open>The idiom \<open>if ':' in s: s = s.split(':')[1]\<close>. With a colon in \<open>s\<close> the split has at
  least two pieces, so index 1 exists; it is the text between the first and the second colon.\<close>

definition strip_prefix :: "string \<Rightarrow> string" where
  "strip_prefix s = (if CHR '':'' \<in> set s then split_on CHR '':'' s ! 1 else s)"

text \<open>\<open>str.strip()\<close>: the whitespace code points below 256.\<close>

definition is_space :: "char \<Rightarrow> bool" where
  "is_space c = ((of_char c :: nat) \<in> {9, 10, 11, 12, 13, 28, 29, 30, 31, 32, 133, 160})"

definition strip :: "string \<Rightarrow> string" where
  "strip s = rev (dropWhile is_space (rev (dropWhile is_space s)))"

text \<open>\<open>str.isdigit()\<close>: non-empty and every character a digit. Below 256 the digits are
  \<open>0\<close> to \<open>9\<close> and the superscripts one, two and three, which \<open>int()\<close> does not accept.\<close>

definition is_ascii_digit :: "char \<Rightarrow> bool" where
  "is_ascii_digit c = (48 \<le> (of_char c :: nat) \<and> (of_char c :: nat) \<le> 57)"

definition is_digit_char :: "char \<Rightarrow> bool" where
  "is_digit_char c = (is_ascii_digit c \<or> (of_char c :: nat) \<in> {178, 179, 185})"

definition isdigit :: "string \<Rightarrow> bool" where
  "isdigit s = (s \<noteq> [] \<and> list_all is_digit_char s)"

fun digits_value :: "string \<Rightarrow> nat \<Rightarrow> nat" where
  "digits_value [] acc = acc"
| "digits_value (c # cs) acc = digits_value cs (10 * acc + ((of_char c :: nat) - 48))"

fun show_digit :: "nat \<Rightarrow> char" where
  "show_digit n = char_of (48 + n mod 10)"

fun show_nat :: "nat \<Rightarrow> string" where
  "show_nat n = (if n < 10 then [show_digit n] else show_nat (n div 10) @ [show_digit n])"

text \<open>\<open>int(s)\<close> for a string that passed \<open>isdigit\<close>. CPython first measures the leading run
  of ASCII digits against \<open>sys.int_info.default_max_str_digits\<close> (4300), then rejects a
  string that holds anything else; the message shows the \<open>repr\<close> of the string (such a
  string needs no escapes), cut at 200 characters by the format \<open>%.200R\<close>.\<close>

definition int_max_str_digits :: nat where
  "int_max_str_digits = 4300"

definition py_int :: "string \<Rightarrow> exn + nat" where
  "py_int s =
     (let run = length (takeWhile is_ascii_digit s)
      in if run > int_max_str_digits
         then Inl (ValueError (''Exceeds the limit (4300 digits) for integer string conversion: value has ''
                @ show_nat run @ '' digits; use sys.set_int_max_str_digits() to increase the limit''))
         else if list_all is_ascii_digit s then Inr (digits_value s 0)
         else Inl (ValueError (''invalid literal for int() with base 10: ''
                @ take 200 ([CHR 0x27] @ s @ [CHR 0x27]))))"

text \<open>A \<open>dict\<close> keeps insertion order: storing under a key it already holds replaces the
  value where it stands, a new key goes to the end.\<close>

fun dict_set :: "('k \<times> 'v) list \<Rightarrow> 'k \<Rightarrow> 'v \<Rightarrow> ('k \<times> 'v) list" where
  "dict_set [] k v = [(k, v)]"
| "dict_set ((k', v') # d) k v = (if k' = k then (k, v) # d else (k', v') # dict_set d k v)"

text \<open>\<open>d.get(k, default)\<close>: the default is for a missing key only; a key stored with
  \<open>None\<close> gives \<open>None\<close>.\<close>

definition dict_get :: "('k \<times> 'v) list \<Rightarrow> 'k \<Rightarrow> 'v \<Rightarrow> 'v" where
  "dict_get d k dflt = (case map_of d k of None \<Rightarrow> dflt | Some v \<Rightarrow> v)"

section \<open>The XML tree and the XPath queries of the parser\<close>

text \<open>
  An element as \<open>lxml\<close> presents it: the namespace URI and local name of its tag (an empty
  URI for no namespace), its attributes, its \<open>.text\<close> (the text before the first child,
  \<open>None\<close> when there is none) and its child elements in document order. Comments and
  processing instructions match no name test and are left out.
\<close>

datatype xml =
  Element (tag_ns: string) (tag_name: string) (attrib: "(string \<times> string) list")
    (elem_text: "string option") (children: "xml list")

text \<open>\<open>e.get(k)\<close> and \<open>e.get(k, default)\<close>.\<close>

definition attr :: "xml \<Rightarrow> string \<Rightarrow> string option" where
  "attr e k = map_of (attrib e) k"

definition attr_default :: "xml \<Rightarrow> string \<Rightarrow> string \<Rightarrow> string" where
  "attr_default e k dflt = (case attr e k of None \<Rightarrow> dflt | Some v \<Rightarrow> v)"

text \<open>The descendants of an element in document order, the element itself excluded.\<close>

fun descendants :: "xml \<Rightarrow> xml list" where
  "descendants (Element u n a t cs) = concat (map (\<lambda>c. c # descendants c) cs)"

definition has_tag :: "string \<Rightarrow> string \<Rightarrow> xml \<Rightarrow> bool" where
  "has_tag uri name e = (tag_ns e = uri \<and> tag_name e = name)"

text \<open>
  The prefix table \<open>self.namespaces\<close>, a dict from prefix to URI or \<open>None\<close>. Every
  \<open>xpath\<close> call of the parser passes the whole table; \<open>lxml\<close> raises \<open>TypeError\<close> when it
  is handed an empty prefix, or a URI that is \<open>None\<close> or empty, before it looks at the
  expression.
\<close>

type_synonym nsmap = "(string \<times> string option) list"

fun check_namespaces :: "nsmap \<Rightarrow> exn + unit" where
  "check_namespaces [] = Inr ()"
| "check_namespaces ((p, u) # rest) =
     (if p = [] then Inl (TypeError ''empty namespace prefix is not supported in XPath'')
      else if \<not> truthy u then Inl (TypeError ''setting default namespace is not supported in XPath'')
      else check_namespaces rest)"

definition resolve_prefix :: "nsmap \<Rightarrow> string \<Rightarrow> exn + string" where
  "resolve_prefix nsm p =
     (case map_of nsm p of
        Some (Some uri) \<Rightarrow> Inr uri
      | _ \<Rightarrow> Inl (XPathEvalError ''Undefined namespace prefix''))"

text \<open>\<open>root.xpath('//p:name', namespaces=nsm)\<close>: the root and its descendants.\<close>

definition xpath_all :: "nsmap \<Rightarrow> xml \<Rightarrow> string \<Rightarrow> string \<Rightarrow> exn + xml list" where
  "xpath_all nsm root p name =
     bind_exn (check_namespaces nsm) (\<lambda>_.
     bind_exn (resolve_prefix nsm p) (\<lambda>uri.
       Inr (filter (has_tag uri name) (root # descendants root))))"

text \<open>\<open>e.xpath('.//p:name', namespaces=nsm)\<close>: the descendants of \<open>e\<close> only.\<close>

definition xpath_desc :: "nsmap \<Rightarrow> xml \<Rightarrow> string \<Rightarrow> string \<Rightarrow> exn + xml list" where
  "xpath_desc nsm e p name =
     bind_exn (check_namespaces nsm) (\<lambda>_.
     bind_exn (resolve_prefix nsm p) (\<lambda>uri.
       Inr (filter (has_tag uri name) (descendants e))))"

text \<open>
  \<open>root.xpath(f'//wsdl:message[@name="{msg_name}"]', namespaces=nsm)\<close>. The name is pasted
  between double quotes. Without a double quote of its own it is a string literal and the
  query selects the \<open>message\<close> elements whose \<open>name\<close> attribute equals it. With one, the
  text is some other expression, or none at all; what the XPath engine makes of it is the
  parameter \<open>xp\<close>, from expression text and root to the nodes found or the exception raised.
\<close>

definition message_query :: "string \<Rightarrow> string" where
  "message_query msg_name = ''//wsdl:message[@name='' @ [CHR 0x22] @ msg_name @ [CHR 0x22] @ '']''"

definition xpath_message ::
  "(string \<Rightarrow> xml \<Rightarrow> exn + xml list) \<Rightarrow> nsmap \<Rightarrow> xml \<Rightarrow> string \<Rightarrow> exn + xml list" where
  "xpath_message xp nsm root msg_name =
     bind_exn (check_namespaces nsm) (\<lambda>_.
       if CHR 0x22 \<in> set msg_name then xp (message_query msg_name) root
       else bind_exn (resolve_prefix nsm ''wsdl'') (\<lambda>uri.
         Inr (filter (\<lambda>e. has_tag uri ''message'' e \<and> attr e ''name'' = Some msg_name)
                (root # descendants root))))"

section \<open>The WSDL parser (\<open>wsdl_parser.py\<close>)\<close>

subsection \<open>The service descriptor\<close>

text \<open>
  The dicts the parser builds. A message part is kept as the dict it is, from key to
  \<open>str | None\<close>, because the generator reads it with \<open>dict.get(key, default)\<close>. The other
  dicts always carry the same keys and are records; a field of type \<open>string option\<close> holds
  \<open>None\<close> when the attribute is missing.
\<close>

type_synonym part = "(string \<times> string option) list"

record message =
  msg_name :: "string option"
  msg_parts :: "part list"

record fault =
  fault_name :: "string option"
  fault_message :: "string option"
  fault_documentation :: "string option"

record operation =
  op_name :: "string option"
  op_documentation :: "string option"
  op_input :: "message option"
  op_output :: "message option"
  op_faults :: "fault list"

record prop_def =
  prop_type :: string
  prop_required :: bool
  prop_array :: bool

text \<open>A catalogue entry: \<open>{'type': 'object', 'properties': ...}\<close> for a complex type,
  \<open>{'type': t, 'base': b}\<close> or the bare \<open>{'type': 'string'}\<close> for a simple type,
  \<open>{'type': t, 'xml_type': x}\<close> for an element.\<close>

datatype type_def =
    ComplexType "(string option \<times> prop_def) list"
  | SimpleType string "string option"
  | ElementType string string

record binding_operation =
  bop_name :: "string option"
  bop_soap_action :: string

record binding =
  binding_name :: "string option"
  binding_type :: "string option"
  binding_transport :: string
  binding_style :: string
  binding_operations :: "binding_operation list"

record service_port =
  port_name :: "string option"
  port_binding :: "string option"
  port_location :: "string option"

record service =
  service_name :: "string option"
  service_ports :: "service_port list"
  service_documentation :: "string option"

record service_info =
  info_name :: string
  info_description :: string
  info_target_namespace :: "string option"
  info_operations :: "operation list"
  info_types :: "(string \<times> type_def) list"
  info_bindings :: "binding list"
  info_services :: "service list"

subsection \<open>The extraction functions\<close>

definition init_namespaces :: nsmap where
  "init_namespaces =
     [(''wsdl'', Some ''http://schemas.xmlsoap.org/wsdl/''),
      (''soap'', Some ''http://schemas.xmlsoap.org/wsdl/soap/''),
      (''soap12'', Some ''http://schemas.xmlsoap.org/wsdl/soap12/''),
      (''xsd'', Some ''http://www.w3.org/2001/XMLSchema''),
      (''tns'', None)]"

definition get_service_name :: "nsmap \<Rightarrow> xml \<Rightarrow> exn + string" where
  "get_service_name nsm root =
     bind_exn (xpath_all nsm root ''wsdl'' ''service'') (\<lambda>services.
       case services of
         s # _ \<Rightarrow> Inr (attr_default s ''name'' ''UnknownService'')
       | [] \<Rightarrow> Inr ''UnknownService'')"

definition get_service_description :: "nsmap \<Rightarrow> xml \<Rightarrow> exn + string" where
  "get_service_description nsm root =
     bind_exn (xpath_all nsm root ''wsdl'' ''documentation'') (\<lambda>docs.
       case docs of
         d # _ \<Rightarrow> Inr (if truthy (elem_text d) then the (elem_text d)
                        else ''No description available'')
       | [] \<Rightarrow> Inr ''SOAP Web Service converted from WSDL'')"

definition get_element_documentation :: "nsmap \<Rightarrow> xml \<Rightarrow> exn + string option" where
  "get_element_documentation nsm element =
     bind_exn (xpath_desc nsm element ''wsdl'' ''documentation'') (\<lambda>docs.
       case docs of
         d # _ \<Rightarrow> (if truthy (elem_text d) then Inr (Some (strip (the (elem_text d))))
                    else Inr None)
       | [] \<Rightarrow> Inr None)"

definition parse_message :: "nsmap \<Rightarrow> xml \<Rightarrow> exn + message" where
  "parse_message nsm msg =
     bind_exn (xpath_desc nsm msg ''wsdl'' ''part'') (\<lambda>part_elements.
       Inr \<lparr>msg_name = attr msg ''name'',
            msg_parts = map (\<lambda>p. [(''name'', attr p ''name''),
                                   (''element'', attr p ''element''),
                                   (''type'', attr p ''type'')]) part_elements\<rparr>)"

definition extract_message_info ::
  "(string \<Rightarrow> xml \<Rightarrow> exn + xml list) \<Rightarrow> nsmap \<Rightarrow> xml \<Rightarrow> xml \<Rightarrow> string \<Rightarrow> exn + message option" where
  "extract_message_info xp nsm root operation msg_type =
     bind_exn (xpath_desc nsm operation ''wsdl'' msg_type) (\<lambda>msg_elements.
       case msg_elements of
         [] \<Rightarrow> Inr None
       | msg_element # _ \<Rightarrow>
           (if truthy (attr msg_element ''message'')
            then bind_exn (xpath_message xp nsm root
                             (strip_prefix (the (attr msg_element ''message'')))) (\<lambda>messages.
                   case messages of
                     m # _ \<Rightarrow> bind_exn (parse_message nsm m) (\<lambda>r. Inr (Some r))
                   | [] \<Rightarrow> Inr None)
            else Inr None))"

definition extract_faults :: "nsmap \<Rightarrow> xml \<Rightarrow> exn + fault list" where
  "extract_faults nsm operation =
     bind_exn (xpath_desc nsm operation ''wsdl'' ''fault'') (\<lambda>fault_elements.
       map_exn (\<lambda>f. bind_exn (get_element_documentation nsm f) (\<lambda>doc.
                  Inr \<lparr>fault_name = attr f ''name'', fault_message = attr f ''message'',
                       fault_documentation = doc\<rparr>))
         fault_elements)"

definition extract_operation ::
  "(string \<Rightarrow> xml \<Rightarrow> exn + xml list) \<Rightarrow> nsmap \<Rightarrow> xml \<Rightarrow> xml \<Rightarrow> exn + operation" where
  "extract_operation xp nsm root op =
     bind_exn (get_element_documentation nsm op) (\<lambda>doc.
     bind_exn (extract_message_info xp nsm root op ''input'') (\<lambda>inp.
     bind_exn (extract_message_info xp nsm root op ''output'') (\<lambda>out.
     bind_exn (extract_faults nsm op) (\<lambda>fs.
       Inr \<lparr>op_name = attr op ''name'', op_documentation = doc, op_input = inp,
            op_output = out, op_faults = fs\<rparr>))))"

text \<open>The two nested loops append to one list: the operations of the first port type, then
  those of the second, and so on, nothing removed.\<close>

definition extract_operations ::
  "(string \<Rightarrow> xml \<Rightarrow> exn + xml list) \<Rightarrow> nsmap \<Rightarrow> xml \<Rightarrow> exn + operation list" where
  "extract_operations xp nsm root =
     bind_exn (xpath_all nsm root ''wsdl'' ''portType'') (\<lambda>port_types.
     bind_exn (map_exn (\<lambda>port_type.
                 bind_exn (xpath_desc nsm port_type ''wsdl'' ''operation'') (\<lambda>ops.
                   map_exn (extract_operation xp nsm root) ops))
               port_types) (\<lambda>per_port_type.
       Inr (concat per_port_type)))"

subsection \<open>The type catalogue\<close>

definition xsd_type_mapping :: "(string \<times> string) list" where
  "xsd_type_mapping =
     [(''string'', ''string''),
      (''int'', ''integer''),
      (''integer'', ''integer''),
      (''long'', ''integer''),
      (''short'', ''integer''),
      (''byte'', ''integer''),
      (''double'', ''number''),
      (''float'', ''number''),
      (''decimal'', ''number''),
      (''boolean'', ''boolean''),
      (''date'', ''string''),
      (''dateTime'', ''string''),
      (''time'', ''string''),
      (''base64Binary'', ''string''),
      (''hexBinary'', ''string''),
      (''anyURI'', ''string'')]"

definition map_xsd_type :: "string option \<Rightarrow> string" where
  "map_xsd_type xsd_type =
     (if \<not> truthy xsd_type then ''string''
      else dict_get xsd_type_mapping (lower (strip_prefix (the xsd_type))) ''string'')"

definition is_array :: "string \<Rightarrow> exn + bool" where
  "is_array max_occurs =
     (if max_occurs = ''unbounded'' then Inr True
      else if isdigit max_occurs then bind_exn (py_int max_occurs) (\<lambda>n. Inr (n > 1))
      else Inr False)"

definition parse_property :: "xml \<Rightarrow> exn + prop_def" where
  "parse_property elem =
     (let prop_type = attr_default elem ''type'' ''string'';
          min_occurs = attr_default elem ''minOccurs'' ''1'';
          max_occurs = attr_default elem ''maxOccurs'' ''1''
      in bind_exn (is_array max_occurs) (\<lambda>arr.
           Inr \<lparr>prop_type = map_xsd_type (Some prop_type),
                prop_required = (min_occurs \<noteq> ''0''),
                prop_array = arr\<rparr>))"

definition parse_complex_type :: "nsmap \<Rightarrow> xml \<Rightarrow> exn + type_def" where
  "parse_complex_type nsm complex_type =
     bind_exn (xpath_desc nsm complex_type ''xsd'' ''sequence'') (\<lambda>sequences.
     bind_exn (fold_exn (\<lambda>seq properties.
                 bind_exn (xpath_desc nsm seq ''xsd'' ''element'') (\<lambda>elements.
                   fold_exn (\<lambda>elem properties.
                       bind_exn (parse_property elem) (\<lambda>p.
                         Inr (dict_set properties (attr elem ''name'') p)))
                     elements properties))
               sequences []) (\<lambda>properties.
       Inr (ComplexType properties)))"

definition parse_simple_type :: "nsmap \<Rightarrow> xml \<Rightarrow> exn + type_def" where
  "parse_simple_type nsm simple_type =
     bind_exn (xpath_desc nsm simple_type ''xsd'' ''restriction'') (\<lambda>restrictions.
       case restrictions of
         r # _ \<Rightarrow> Inr (SimpleType (map_xsd_type (Some (attr_default r ''base'' ''string'')))
                        (Some (attr_default r ''base'' ''string'')))
       | [] \<Rightarrow> Inr (SimpleType ''string'' None))"

definition parse_element :: "xml \<Rightarrow> type_def" where
  "parse_element element =
     ElementType (map_xsd_type (Some (attr_default element ''type'' ''string'')))
       (attr_default element ''type'' ''string'')"

text \<open>One of the three inner loops of \<open>_extract_types\<close>: every found node with a truthy
  \<open>name\<close> is stored under that name.\<close>

definition store_named ::
  "(xml \<Rightarrow> exn + type_def) \<Rightarrow> xml list \<Rightarrow> (string \<times> type_def) list
     \<Rightarrow> exn + (string \<times> type_def) list" where
  "store_named parse_one nodes types =
     fold_exn (\<lambda>node types.
         if truthy (attr node ''name'')
         then bind_exn (parse_one node) (\<lambda>d. Inr (dict_set types (the (attr node ''name'')) d))
         else Inr types)
       nodes types"

definition extract_schema_types ::
  "nsmap \<Rightarrow> xml \<Rightarrow> (string \<times> type_def) list \<Rightarrow> exn + (string \<times> type_def) list" where
  "extract_schema_types nsm schema types =
     bind_exn (xpath_desc nsm schema ''xsd'' ''complexType'') (\<lambda>complex_types.
     bind_exn (store_named (parse_complex_type nsm) complex_types types) (\<lambda>types1.
     bind_exn (xpath_desc nsm schema ''xsd'' ''simpleType'') (\<lambda>simple_types.
     bind_exn (store_named (parse_simple_type nsm) simple_types types1) (\<lambda>types2.
     bind_exn (xpath_desc nsm schema ''xsd'' ''element'') (\<lambda>elements.
       store_named (\<lambda>e. Inr (parse_element e)) elements types2)))))"

definition extract_types :: "nsmap \<Rightarrow> xml \<Rightarrow> exn + (string \<times> type_def) list" where
  "extract_types nsm root =
     bind_exn (xpath_all nsm root ''xsd'' ''schema'') (\<lambda>schemas.
       fold_exn (extract_schema_types nsm) schemas [])"

subsection \<open>Bindings and services\<close>

definition get_soap_transport :: "nsmap \<Rightarrow> xml \<Rightarrow> exn + string" where
  "get_soap_transport nsm b =
     bind_exn (xpath_desc nsm b ''soap'' ''binding'') (\<lambda>soap_bindings.
       case soap_bindings of
         sb # _ \<Rightarrow> Inr (attr_default sb ''transport'' ''http://schemas.xmlsoap.org/soap/http'')
       | [] \<Rightarrow> Inr ''http://schemas.xmlsoap.org/soap/http'')"

definition get_soap_style :: "nsmap \<Rightarrow> xml \<Rightarrow> exn + string" where
  "get_soap_style nsm b =
     bind_exn (xpath_desc nsm b ''soap'' ''binding'') (\<lambda>soap_bindings.
       case soap_bindings of
         sb # _ \<Rightarrow> Inr (attr_default sb ''style'' ''document'')
       | [] \<Rightarrow> Inr ''document'')"

definition extract_binding_operations :: "nsmap \<Rightarrow> xml \<Rightarrow> exn + binding_operation list" where
  "extract_binding_operations nsm b =
     bind_exn (xpath_desc nsm b ''wsdl'' ''operation'') (\<lambda>op_elements.
       map_exn (\<lambda>op. bind_exn (xpath_desc nsm op ''soap'' ''operation'') (\<lambda>soap_ops.
                  Inr \<lparr>bop_name = attr op ''name'',
                       bop_soap_action = (case soap_ops of
                                            so # _ \<Rightarrow> attr_default so ''soapAction'' []
                                          | [] \<Rightarrow> [])\<rparr>))
         op_elements)"

definition extract_bindings :: "nsmap \<Rightarrow> xml \<Rightarrow> exn + binding list" where
  "extract_bindings nsm root =
     bind_exn (xpath_all nsm root ''wsdl'' ''binding'') (\<lambda>binding_elements.
       map_exn (\<lambda>b.
           bind_exn (get_soap_transport nsm b) (\<lambda>transport.
           bind_exn (get_soap_style nsm b) (\<lambda>style.
           bind_exn (extract_binding_operations nsm b) (\<lambda>ops.
             Inr \<lparr>binding_name = attr b ''name'', binding_type = attr b ''type'',
                  binding_transport = transport, binding_style = style,
                  binding_operations = ops\<rparr>))))
         binding_elements)"

text \<open>The location of a port: its SOAP 1.1 address when it has one, else its SOAP 1.2
  address; \<open>None\<close> when the address has no \<open>location\<close>, the empty string without address.\<close>

definition extract_port :: "nsmap \<Rightarrow> xml \<Rightarrow> exn + service_port" where
  "extract_port nsm port =
     bind_exn (xpath_desc nsm port ''soap'' ''address'') (\<lambda>addresses.
     bind_exn (if addresses = [] then xpath_desc nsm port ''soap12'' ''address''
               else Inr addresses) (\<lambda>addresses.
       Inr \<lparr>port_name = attr port ''name'', port_binding = attr port ''binding'',
            port_location = (case addresses of a # _ \<Rightarrow> attr a ''location''
                             | [] \<Rightarrow> Some [])\<rparr>))"

definition extract_services :: "nsmap \<Rightarrow> xml \<Rightarrow> exn + service list" where
  "extract_services nsm root =
     bind_exn (xpath_all nsm root ''wsdl'' ''service'') (\<lambda>service_elements.
       map_exn (\<lambda>s.
           bind_exn (xpath_desc nsm s ''wsdl'' ''port'') (\<lambda>ports.
           bind_exn (map_exn (extract_port nsm) ports) (\<lambda>sports.
           bind_exn (get_element_documentation nsm s) (\<lambda>doc.
             Inr \<lparr>service_name = attr s ''name'', service_ports = sports,
                  service_documentation = doc\<rparr>))))
         service_elements)"

subsection \<open>The entry point\<close>

text \<open>The body of the \<open>try\<close> once the tree is there: the dict literal evaluates its values
  from top to bottom.\<close>

definition extract_service_info ::
  "(string \<Rightarrow> xml \<Rightarrow> exn + xml list) \<Rightarrow> nsmap \<Rightarrow> xml \<Rightarrow> string option \<Rightarrow> exn + service_info" where
  "extract_service_info xp nsm root target_ns =
     bind_exn (get_service_name nsm root) (\<lambda>name.
     bind_exn (get_service_description nsm root) (\<lambda>description.
     bind_exn (extract_operations xp nsm root) (\<lambda>operations.
     bind_exn (extract_types nsm root) (\<lambda>types.
     bind_exn (extract_bindings nsm root) (\<lambda>bindings.
     bind_exn (extract_services nsm root) (\<lambda>services.
       Inr \<lparr>info_name = name, info_description = description,
            info_target_namespace = target_ns, info_operations = operations,
            info_types = types, info_bindings = bindings, info_services = services\<rparr>))))))"

text \<open>The two \<open>except\<close> clauses: \<open>XMLSyntaxError\<close> first, then every other \<open>Exception\<close>.\<close>

fun reraise :: "exn \<Rightarrow> exn" where
  "reraise (XMLSyntaxError m) = ValueError (''Invalid XML syntax: '' @ m)"
| "reraise e = ValueError (''Failed to parse WSDL: '' @ exn_str e)"

text \<open>
  \<open>parse\<close> on a parser object whose prefix table is \<open>nsm\<close>. The argument \<open>parsed\<close> is what
  \<open>etree.fromstring(wsdl_content.encode('utf-8'))\<close> gave for the document: the root
  element, or the exception it raised. The result is the descriptor or the exception that
  leaves \<open>parse\<close>, together with the prefix table the parser object holds afterwards.
\<close>

definition parse ::
  "(string \<Rightarrow> xml \<Rightarrow> exn + xml list) \<Rightarrow> nsmap \<Rightarrow> exn + xml \<Rightarrow> (exn + service_info) \<times> nsmap" where
  "parse xp nsm parsed =
     (case parsed of
        Inl e \<Rightarrow> (Inl (reraise e), nsm)
      | Inr root \<Rightarrow>
          (let target_ns = attr root ''targetNamespace'';
               nsm' = (if truthy target_ns then dict_set nsm ''tns'' target_ns else nsm)
           in (case extract_service_info xp nsm' root target_ns of
                 Inl e \<Rightarrow> Inl (reraise e)
               | Inr service_info \<Rightarrow> Inr service_info,
               nsm')))"

section \<open>The OpenAPI generator (\<open>swagger_generator.py\<close>)\<close>

text \<open>
  The generated specification is a tree of Python values. A dict is the list of its items
  in insertion order; its keys are strings, or \<open>None\<close> where the code stores under a
  missing name.
\<close>

datatype pyval =
    PyNone
  | PyBool bool
  | PyStr string
  | PyList "pyval list"
  | PyDict "(string option \<times> pyval) list"

fun py_of_str :: "string option \<Rightarrow> pyval" where
  "py_of_str None = PyNone"
| "py_of_str (Some s) = PyStr s"

text \<open>\<open>d[k]\<close> on a generated dict, as a lookup that may find nothing.\<close>

fun py_item :: "pyval \<Rightarrow> string \<Rightarrow> pyval option" where
  "py_item (PyDict items) k = map_of items (Some k)"
| "py_item _ k = None"

subsection \<open>The scalar type mapper\<close>

definition openapi_type_mapping :: "(string \<times> pyval) list" where
  "openapi_type_mapping =
     [(''string'', PyDict [(Some ''type'', PyStr ''string'')]),
      (''int'', PyDict [(Some ''type'', PyStr ''integer''), (Some ''format'', PyStr ''int32'')]),
      (''integer'', PyDict [(Some ''type'', PyStr ''integer'')]),
      (''long'', PyDict [(Some ''type'', PyStr ''integer''), (Some ''format'', PyStr ''int64'')]),
      (''short'', PyDict [(Some ''type'', PyStr ''integer''), (Some ''format'', PyStr ''int32'')]),
      (''byte'', PyDict [(Some ''type'', PyStr ''integer''), (Some ''format'', PyStr ''int32'')]),
      (''double'', PyDict [(Some ''type'', PyStr ''number''), (Some ''format'', PyStr ''double'')]),
      (''float'', PyDict [(Some ''type'', PyStr ''number''), (Some ''format'', PyStr ''float'')]),
      (''decimal'', PyDict [(Some ''type'', PyStr ''number'')]),
      (''boolean'', PyDict [(Some ''type'', PyStr ''boolean'')]),
      (''date'', PyDict [(Some ''type'', PyStr ''string''), (Some ''format'', PyStr ''date'')]),
      (''dateTime'', PyDict [(Some ''type'', PyStr ''string''), (Some ''format'', PyStr ''date-time'')]),
      (''time'', PyDict [(Some ''type'', PyStr ''string''), (Some ''format'', PyStr ''time'')]),
      (''base64Binary'', PyDict [(Some ''type'', PyStr ''string''), (Some ''format'', PyStr ''byte'')]),
      (''hexBinary'', PyDict [(Some ''type'', PyStr ''string''), (Some ''format'', PyStr ''binary'')]),
      (''anyURI'', PyDict [(Some ''type'', PyStr ''string''), (Some ''format'', PyStr ''uri'')])]"

definition map_type_to_openapi :: "string option \<Rightarrow> pyval" where
  "map_type_to_openapi wsdl_type =
     (if \<not> truthy wsdl_type then PyDict [(Some ''type'', PyStr ''string'')]
      else dict_get openapi_type_mapping (lower (strip_prefix (the wsdl_type)))
             (PyDict [(Some ''type'', PyStr ''string'')]))"

subsection \<open>Message schemas\<close>

text \<open>The loop over the parts of an input message: one property per part, every part
  name appended to \<open>required\<close>.\<close>

definition input_part_name :: "part \<Rightarrow> string option" where
  "input_part_name p = dict_get p ''name'' (Some ''parameter'')"

definition output_part_name :: "part \<Rightarrow> string option" where
  "output_part_name p = dict_get p ''name'' (Some ''result'')"

definition part_type :: "part \<Rightarrow> string option" where
  "part_type p = py_or (dict_get p ''type'' None) (dict_get p ''element'' (Some ''string''))"

definition generate_input_schema :: "message option \<Rightarrow> pyval" where
  "generate_input_schema input_msg =
     (case input_msg of
        None \<Rightarrow> PyDict [(Some ''type'', PyStr ''object'')]
      | Some m \<Rightarrow>
          if msg_parts m = [] then PyDict [(Some ''type'', PyStr ''object'')]
          else
            (let properties = fold (\<lambda>p properties.
                                  dict_set properties (input_part_name p)
                                    (map_type_to_openapi (part_type p)))
                                (msg_parts m) [];
                 required = map (\<lambda>p. py_of_str (input_part_name p)) (msg_parts m)
             in PyDict ([(Some ''type'', PyStr ''object''), (Some ''properties'', PyDict properties)]
                        @ (if required \<noteq> [] then [(Some ''required'', PyList required)] else []))))"

definition generate_output_schema :: "message option \<Rightarrow> pyval" where
  "generate_output_schema output_msg =
     (case output_msg of
        None \<Rightarrow> PyDict [(Some ''type'', PyStr ''object'')]
      | Some m \<Rightarrow>
          if msg_parts m = [] then PyDict [(Some ''type'', PyStr ''object'')]
          else
            (let properties = fold (\<lambda>p properties.
                                  dict_set properties (output_part_name p)
                                    (map_type_to_openapi (part_type p)))
                                (msg_parts m) []
             in PyDict [(Some ''type'', PyStr ''object''), (Some ''properties'', PyDict properties)]))"

subsection \<open>Component schemas\<close>

definition property_schema :: "prop_def \<Rightarrow> pyval" where
  "property_schema prop =
     (if prop_array prop
      then PyDict [(Some ''type'', PyStr ''array''),
                   (Some ''items'', PyDict [(Some ''type'', PyStr (prop_type prop))])]
      else PyDict [(Some ''type'', PyStr (prop_type prop))])"

fun type_schema :: "type_def \<Rightarrow> pyval" where
  "type_schema (ComplexType properties) =
     (let props = fold (\<lambda>(prop_name, prop) ps. dict_set ps prop_name (property_schema prop))
                    properties [];
          required = map (\<lambda>(prop_name, prop). py_of_str prop_name)
                       (filter (\<lambda>(prop_name, prop). prop_required prop) properties)
      in PyDict ([(Some ''type'', PyStr ''object''), (Some ''properties'', PyDict props)]
                 @ (if required \<noteq> [] then [(Some ''required'', PyList required)] else [])))"
| "type_schema (SimpleType t base) = map_type_to_openapi (Some t)"
| "type_schema (ElementType t xml_type) = map_type_to_openapi (Some t)"

definition generate_schemas :: "(string \<times> type_def) list \<Rightarrow> pyval" where
  "generate_schemas types =
     PyDict (fold (\<lambda>(type_name, type_def) schemas.
                     dict_set schemas (Some type_name) (type_schema type_def))
               types [])"

subsection \<open>SOAP examples\<close>

definition generate_soap_example :: "operation \<Rightarrow> string \<Rightarrow> string" where
  \<open>generate_soap_example operation msg_type =
     (let op_name = fstr (op_name operation)
      in if msg_type = ''request''
         then ''<?xml version="1.0" encoding="UTF-8"?>\<newline>''
            @ ''<soap:Envelope xmlns:soap="http://schemas.xmlsoap.org/soap/envelope/">\<newline>''
            @ ''    <soap:Header>\<newline>''
            @ ''        <!-- Optional SOAP headers -->\<newline>''
            @ ''    </soap:Header>\<newline>''
            @ ''    <soap:Body>\<newline>''
            @ ''        <'' @ op_name @ '' xmlns="http://example.com/service">\<newline>''
            @ ''            <!-- Request parameters -->\<newline>''
            @ ''        </'' @ op_name @ ''>\<newline>''
            @ ''    </soap:Body>\<newline>''
            @ ''</soap:Envelope>''
         else ''<?xml version="1.0" encoding="UTF-8"?>\<newline>''
            @ ''<soap:Envelope xmlns:soap="http://schemas.xmlsoap.org/soap/envelope/">\<newline>''
            @ ''    <soap:Body>\<newline>''
            @ ''        <'' @ op_name @ ''Response xmlns="http://example.com/service">\<newline>''
            @ ''            <!-- Response data -->\<newline>''
            @ ''        </'' @ op_name @ ''Response>\<newline>''
            @ ''    </soap:Body>\<newline>''
            @ ''</soap:Envelope>'')\<close>

definition generate_soap_fault_example :: string where
  \<open>generate_soap_fault_example =
     ''<?xml version="1.0" encoding="UTF-8"?>\<newline>''
     @ ''<soap:Envelope xmlns:soap="http://schemas.xmlsoap.org/soap/envelope/">\<newline>''
     @ ''    <soap:Body>\<newline>''
     @ ''        <soap:Fault>\<newline>''
     @ ''            <faultcode>soap:Server</faultcode>\<newline>''
     @ ''            <faultstring>Server Error</faultstring>\<newline>''
     @ ''            <detail>\<newline>''
     @ ''                <!-- Fault details -->\<newline>''
     @ ''            </detail>\<newline>''
     @ ''        </soap:Fault>\<newline>''
     @ ''    </soap:Body>\<newline>''
     @ ''</soap:Envelope>''\<close>

subsection \<open>Operations and paths\<close>

definition xml_example :: "string \<Rightarrow> pyval" where
  "xml_example example =
     PyDict [(Some ''schema'', PyDict [(Some ''type'', PyStr ''string''),
                                       (Some ''example'', PyStr example)])]"

text \<open>The \<open>post\<close> operation. The \<open>application/json\<close> entries are stored after the literal is
  built, so they come last in their \<open>content\<close> dicts; an input or output message is a
  non-empty dict, hence truthy, whenever it is not \<open>None\<close>.\<close>

definition generate_operation_spec :: "operation \<Rightarrow> pyval" where
  "generate_operation_spec operation =
     PyDict [(Some ''post'', PyDict
       [(Some ''tags'', PyList [PyStr ''SOAP Operations'']),
        (Some ''summary'', py_of_str (op_name operation)),
        (Some ''description'',
           PyStr (if truthy (op_documentation operation) then the (op_documentation operation)
                  else ''SOAP operation: '' @ fstr (op_name operation))),
        (Some ''operationId'', py_of_str (op_name operation)),
        (Some ''requestBody'', PyDict
           [(Some ''description'', PyStr ''SOAP request body''),
            (Some ''required'', PyBool True),
            (Some ''content'', PyDict
               ([(Some ''text/xml'', xml_example (generate_soap_example operation ''request'')),
                 (Some ''application/soap+xml'',
                    xml_example (generate_soap_example operation ''request''))]
                @ (if op_input operation \<noteq> None
                   then [(Some ''application/json'',
                            PyDict [(Some ''schema'', generate_input_schema (op_input operation))])]
                   else [])))]),
        (Some ''responses'', PyDict
           [(Some ''200'', PyDict
               [(Some ''description'', PyStr ''Successful SOAP response''),
                (Some ''content'', PyDict
                   ([(Some ''text/xml'', xml_example (generate_soap_example operation ''response''))]
                    @ (if op_output operation \<noteq> None
                       then [(Some ''application/json'',
                                PyDict [(Some ''schema'',
                                           generate_output_schema (op_output operation))])]
                       else [])))]),
            (Some ''500'', PyDict
               [(Some ''description'', PyStr ''SOAP Fault''),
                (Some ''content'', PyDict
                   [(Some ''text/xml'', xml_example generate_soap_fault_example)])])]),
        (Some ''parameters'', PyList
           [PyDict [(Some ''name'', PyStr ''SOAPAction''),
                    (Some ''in'', PyStr ''header''),
                    (Some ''description'', PyStr ''SOAP Action header''),
                    (Some ''required'', PyBool False),
                    (Some ''schema'', PyDict [(Some ''type'', PyStr ''string'')])],
            PyDict [(Some ''name'', PyStr ''Content-Type''),
                    (Some ''in'', PyStr ''header''),
                    (Some ''description'', PyStr ''Content type''),
                    (Some ''required'', PyBool True),
                    (Some ''schema'', PyDict
                       [(Some ''type'', PyStr ''string''),
                        (Some ''enum'', PyList [PyStr ''text/xml'', PyStr ''application/soap+xml'']),
                        (Some ''default'', PyStr ''text/xml'')])]])])]"

text \<open>The path of an operation, \<open>f"/{operation['name']}"\<close>; a missing name prints as
  \<open>None\<close>.\<close>

definition path_of :: "operation \<Rightarrow> string" where
  "path_of operation = ''/'' @ fstr (op_name operation)"

text \<open>The loop that fills \<open>swagger_spec["paths"]\<close>, from the empty dict.\<close>

definition generate_paths :: "operation list \<Rightarrow> (string option \<times> pyval) list" where
  "generate_paths operations =
     fold (\<lambda>operation paths.
             dict_set paths (Some (path_of operation)) (generate_operation_spec operation))
       operations []"

subsection \<open>Servers\<close>

text \<open>
  \<open>urlparse\<close> belongs to the standard library and is a parameter here: from a location to
  the \<open>scheme\<close> and \<open>netloc\<close> of the parse, or to the exception it raises. The inner loop
  over the ports of one service gives \<open>Some\<close> of the returned text when it returns, \<open>None\<close>
  when it runs to its end.
\<close>

fun base_url_of_ports ::
  "(string \<Rightarrow> exn + string \<times> string) \<Rightarrow> service_port list \<Rightarrow> exn + string option" where
  "base_url_of_ports urlparse [] = Inr None"
| "base_url_of_ports urlparse (port # ports) =
     (if truthy (port_location port)
      then bind_exn (urlparse (the (port_location port))) (\<lambda>(scheme, netloc).
             if scheme \<noteq> [] \<and> netloc \<noteq> [] then Inr (Some (scheme @ ''://'' @ netloc))
             else base_url_of_ports urlparse ports)
      else base_url_of_ports urlparse ports)"

fun extract_base_url ::
  "(string \<Rightarrow> exn + string \<times> string) \<Rightarrow> service list \<Rightarrow> exn + string" where
  "extract_base_url urlparse [] = Inr ''https://example.com''"
| "extract_base_url urlparse (s # services) =
     bind_exn (base_url_of_ports urlparse (service_ports s)) (\<lambda>found.
       case found of
         Some url \<Rightarrow> Inr url
       | None \<Rightarrow> extract_base_url urlparse services)"

subsection \<open>The document\<close>

definition generate :: "(string \<Rightarrow> exn + string \<times> string) \<Rightarrow> service_info \<Rightarrow> exn + pyval" where
  "generate urlparse wsdl_data =
     bind_exn (extract_base_url urlparse (info_services wsdl_data)) (\<lambda>base_url.
       Inr (PyDict
         [(Some ''openapi'', PyStr ''3.0.0''),
          (Some ''info'', PyDict
             [(Some ''title'', PyStr (info_name wsdl_data)),
              (Some ''description'', PyStr (info_description wsdl_data)),
              (Some ''version'', PyStr ''1.0.0''),
              (Some ''contact'', PyDict [(Some ''name'', PyStr ''API Support'')])]),
          (Some ''servers'',
             (if base_url \<noteq> []
              then PyList [PyDict [(Some ''url'', PyStr base_url),
                                   (Some ''description'', PyStr ''SOAP Service Endpoint'')]]
              else PyList [])),
          (Some ''paths'', PyDict (generate_paths (info_operations wsdl_data))),
          (Some ''components'', PyDict
             [(Some ''schemas'', generate_schemas (info_types wsdl_data)),
              (Some ''securitySchemes'', PyDict [])]),
          (Some ''tags'', PyList
             [PyDict [(Some ''name'', PyStr ''SOAP Operations''),
                      (Some ''description'', PyStr ''SOAP web service operations'')]])]))"

section \<open>Notions used to state the properties\<close>

text \<open>The namespace URIs, as the prefix table of the parser binds them.\<close>

definition wsdl_ns :: string where
  "wsdl_ns = ''http://schemas.xmlsoap.org/wsdl/''"

definition soap_ns :: string where
  "soap_ns = ''http://schemas.xmlsoap.org/wsdl/soap/''"

definition xsd_ns :: string where
  "xsd_ns = ''http://www.w3.org/2001/XMLSchema''"

text \<open>The locations of a descriptor in the order the generator scans them: service by
  service, port by port.\<close>

definition port_locations :: "service list \<Rightarrow> string option list" where
  "port_locations services = concat (map (\<lambda>s. map port_location (service_ports s)) services)"

text \<open>A location at which the scan of the generator returns: it is truthy, and its parse
  has a scheme and a network location. \<open>base_of\<close> is the text returned there.\<close>

definition is_absolute_url :: "(string \<Rightarrow> exn + string \<times> string) \<Rightarrow> string option \<Rightarrow> bool" where
  "is_absolute_url urlparse location =
     (truthy location \<and>
      (case urlparse (the location) of
         Inr (scheme, netloc) \<Rightarrow> scheme \<noteq> [] \<and> netloc \<noteq> []
       | Inl e \<Rightarrow> False))"

definition base_of :: "(string \<Rightarrow> exn + string \<times> string) \<Rightarrow> string option \<Rightarrow> string" where
  "base_of urlparse location =
     (case urlparse (the location) of
        Inr (scheme, netloc) \<Rightarrow> scheme @ ''://'' @ netloc
      | Inl e \<Rightarrow> [])"


text \<open>
  The named definitions of the embedded schemas in the order in which \<open>_extract_types\<close>
  stores them: schema by schema in document order, and inside one schema the complex
  types, then the simple types, then the elements. \<open>store_all\<close> is one loop over such
  a list.
\<close>

datatype def_kind = ComplexKind | SimpleKind | ElementKind

definition named :: "xml \<Rightarrow> bool" where
  "named e = truthy (attr e ''name'')"

definition schema_definitions :: "xml \<Rightarrow> (def_kind \<times> xml) list" where
  "schema_definitions schema =
     map (Pair ComplexKind) (filter named (filter (has_tag xsd_ns ''complexType'') (descendants schema)))
     @ map (Pair SimpleKind) (filter named (filter (has_tag xsd_ns ''simpleType'') (descendants schema)))
     @ map (Pair ElementKind) (filter named (filter (has_tag xsd_ns ''element'') (descendants schema)))"

definition catalogue_order :: "xml \<Rightarrow> (def_kind \<times> xml) list" where
  "catalogue_order root =
     concat (map schema_definitions (filter (has_tag xsd_ns ''schema'') (root # descendants root)))"

fun parse_definition :: "nsmap \<Rightarrow> def_kind \<times> xml \<Rightarrow> exn + type_def" where
  "parse_definition nsm (ComplexKind, e) = parse_complex_type nsm e"
| "parse_definition nsm (SimpleKind, e) = parse_simple_type nsm e"
| "parse_definition nsm (ElementKind, e) = Inr (parse_element e)"

definition store_all ::
  "nsmap \<Rightarrow> (def_kind \<times> xml) list \<Rightarrow> (string \<times> type_def) list \<Rightarrow> exn + (string \<times> type_def) list" where
  "store_all nsm defs types =
     fold_exn (\<lambda>def types. bind_exn (parse_definition nsm def) (\<lambda>td.
                 Inr (dict_set types (the (attr (snd def) ''name'')) td)))
       defs types"

section \<open>Example documents\<close>

text \<open>Small trees, as \<open>lxml\<close> would hand them over, for the closed examples below.\<close>

text \<open>\<open><definitions name="Bare"/>\<close>: no \<open>targetNamespace\<close>, nothing inside.\<close>

definition bare_wsdl :: xml where
  "bare_wsdl = Element wsdl_ns ''definitions'' [(''name'', ''Bare'')] None []"

text \<open>One documented service with one operation; the part of its input message has a
  type and no name.\<close>

definition user_wsdl :: xml where
  "user_wsdl =
     Element wsdl_ns ''definitions'' [(''name'', ''Users''), (''targetNamespace'', ''urn:users'')] None
       [Element wsdl_ns ''documentation'' [] (Some ''User directory'') [],
        Element wsdl_ns ''message'' [(''name'', ''GetUserRequest'')] None
          [Element wsdl_ns ''part'' [(''type'', ''xsd:int'')] None []],
        Element wsdl_ns ''portType'' [(''name'', ''UserPort'')] None
          [Element wsdl_ns ''operation'' [(''name'', ''GetUser'')] None
             [Element wsdl_ns ''input'' [(''message'', ''tns:GetUserRequest'')] None []]],
        Element wsdl_ns ''service'' [(''name'', ''UserService'')] None
          [Element wsdl_ns ''port'' [(''name'', ''UserPort''), (''binding'', ''tns:UserBinding'')] None
             [Element soap_ns ''address'' [(''location'', ''http://example.org/users'')] None []]]]"

text \<open>An operation whose input names a message that no \<open>message\<close> element declares, with
  a double quote in the name: \<open><input message='tns:Get"Req'/>\<close>.\<close>

definition quoted_wsdl :: xml where
  \<open>quoted_wsdl =
     Element wsdl_ns ''definitions'' [(''targetNamespace'', ''urn:users'')] None
       [Element wsdl_ns ''portType'' [(''name'', ''UserPort'')] None
          [Element wsdl_ns ''operation'' [(''name'', ''GetUser'')] None
             [Element wsdl_ns ''input'' [(''message'', ''tns:Get"Req'')] None []]]]\<close>

text \<open>The XPath engine on the one expression of these examples that holds a pasted double
  quote. The text \<open>//wsdl:message[@name="Get"Req"]\<close> is no XPath expression, and the
  evaluation raises \<open>XPathEvalError\<close>.\<close>

definition xpath_engine_example :: "string \<Rightarrow> xml \<Rightarrow> exn + xml list" where
  \<open>xpath_engine_example expr root =
     (if expr = ''//wsdl:message[@name="Get"Req"]'' then Inl (XPathEvalError ''Invalid predicate'')
      else Inr [])\<close>

text \<open>\<open>urlparse\<close> on the locations of these examples: scheme \<open>http\<close> and network location
  \<open>example.org\<close> for \<open>http://example.org/users\<close>; neither for the relative \<open>/users\<close>.\<close>

definition urlparse_example :: "string \<Rightarrow> exn + string \<times> string" where
  "urlparse_example url =
     (if url = ''http://example.org/users'' then Inr (''http'', ''example.org'')
      else Inr ([], []))"

text \<open>A descriptor whose only port has a relative location, and one whose second port
  has an absolute one.\<close>

definition relative_info :: service_info where
  "relative_info =
     \<lparr>info_name = ''UserService'', info_description = ''User directory'',
      info_target_namespace = None, info_operations = [], info_types = [], info_bindings = [],
      info_services =
        [\<lparr>service_name = Some ''UserService'',
          service_ports = [\<lparr>port_name = Some ''UserPort'', port_binding = None,
                            port_location = Some ''/users''\<rparr>],
          service_documentation = None\<rparr>]\<rparr>"

definition two_port_info :: service_info where
  "two_port_info =
     \<lparr>info_name = ''UserService'', info_description = ''User directory'',
      info_target_namespace = None, info_operations = [], info_types = [], info_bindings = [],
      info_services =
        [\<lparr>service_name = Some ''UserService'',
          service_ports = [\<lparr>port_name = Some ''A'', port_binding = None,
                            port_location = Some ''/users''\<rparr>,
                           \<lparr>port_name = Some ''B'', port_binding = None,
                            port_location = Some ''http://example.org/users''\<rparr>],
          service_documentation = None\<rparr>]\<rparr>"



text \<open>A \<open>documentation\<close> element without text, and one whose text has blanks around it.\<close>

definition empty_documentation_wsdl :: xml where
  "empty_documentation_wsdl =
     Element wsdl_ns ''definitions'' [(''targetNamespace'', ''urn:users'')] None
       [Element wsdl_ns ''documentation'' [] None []]"

definition padded_documentation_wsdl :: xml where
  "padded_documentation_wsdl =
     Element wsdl_ns ''definitions'' [(''targetNamespace'', ''urn:users'')] None
       [Element wsdl_ns ''documentation'' [] (Some ''  User directory  '') []]"

text \<open>A schema in which an element and, after it, a complex type share the name
  \<open>Item\<close>.\<close>

definition item_schema_wsdl :: xml where
  "item_schema_wsdl =
     Element wsdl_ns ''definitions'' [(''targetNamespace'', ''urn:users'')] None
       [Element wsdl_ns ''types'' [] None
          [Element xsd_ns ''schema'' [] None
             [Element xsd_ns ''element'' [(''name'', ''Item''), (''type'', ''xsd:int'')] None [],
              Element xsd_ns ''complexType'' [(''name'', ''Item'')] None []]]]"

section \<open>Properties\<close>

subsection \<open>Helper facts: exceptions, dicts, the prefix table\<close>

lemma bind_exn_Inr: "bind_exn m f = Inr y \<longleftrightarrow> (\<exists>x. m = Inr x \<and> f x = Inr y)"
  by (cases m) (simp_all add: bind_exn_def)

lemma map_of_dict_set: "map_of (dict_set d k v) = (map_of d)(k \<mapsto> v)"
  by (induction d) auto








lemma table_wsdl:
  "resolve_prefix (dict_set init_namespaces ''tns'' t) ''wsdl'' = Inr wsdl_ns"
  by (simp add: init_namespaces_def resolve_prefix_def wsdl_ns_def)

lemma table_again:
  "dict_set (dict_set init_namespaces ''tns'' t) ''tns'' t' = dict_set init_namespaces ''tns'' t'"
  by (simp add: init_namespaces_def)

lemma table_None: "dict_set init_namespaces ''tns'' None = init_namespaces"
  by (simp add: init_namespaces_def)

lemma xpath_all_wsdl:
  "xpath_all (dict_set init_namespaces ''tns'' t) root ''wsdl'' name = Inr found \<Longrightarrow>
     found = filter (has_tag wsdl_ns name) (root # descendants root)"
  by (auto simp: xpath_all_def bind_exn_Inr table_wsdl)


lemma parse_Inr_general:
  assumes "fst (parse xp nsm (Inr root)) = Inr d"
  shows "extract_service_info xp
           (if truthy (attr root ''targetNamespace'')
            then dict_set nsm ''tns'' (attr root ''targetNamespace'') else nsm)
           root (attr root ''targetNamespace'') = Inr d"
proof -
  let ?body = "extract_service_info xp
           (if truthy (attr root ''targetNamespace'')
            then dict_set nsm ''tns'' (attr root ''targetNamespace'') else nsm)
           root (attr root ''targetNamespace'')"
  have "fst (parse xp nsm (Inr root)) = (case ?body of Inl e \<Rightarrow> Inl (reraise e) | Inr s \<Rightarrow> Inr s)"
    by (simp add: parse_def Let_def)
  with assms show ?thesis by (cases ?body) simp_all
qed

lemma parse_Inr:
  assumes "fst (parse xp (dict_set init_namespaces ''tns'' t) (Inr root)) = Inr d"
  shows "\<exists>t'. extract_service_info xp (dict_set init_namespaces ''tns'' t') root
                 (attr root ''targetNamespace'') = Inr d"
  using parse_Inr_general [OF assms] by (cases "truthy (attr root ''targetNamespace'')") (auto simp: table_again)

lemma extract_service_info_Inr:
  assumes "extract_service_info xp nsm root target_ns = Inr d"
  shows "get_service_description nsm root = Inr (info_description d)"
    and "extract_operations xp nsm root = Inr (info_operations d)"
    and "extract_types nsm root = Inr (info_types d)"
    and "extract_services nsm root = Inr (info_services d)"
proof -
  from assms obtain name description operations types bindings services where
    parts: "get_service_description nsm root = Inr description"
      "extract_operations xp nsm root = Inr operations"
      "extract_types nsm root = Inr types"
      "extract_services nsm root = Inr services"
    and d: "d = \<lparr>info_name = name, info_description = description,
            info_target_namespace = target_ns, info_operations = operations,
            info_types = types, info_bindings = bindings, info_services = services\<rparr>"
    unfolding extract_service_info_def bind_exn_Inr by blast
  from parts d show "get_service_description nsm root = Inr (info_description d)"
    and "extract_operations xp nsm root = Inr (info_operations d)"
    and "extract_types nsm root = Inr (info_types d)"
    and "extract_services nsm root = Inr (info_services d)"
    by simp_all
qed

subsection \<open>The exceptions that leave \<open>parse\<close>\<close>

lemma reraise_cases:
  "(\<exists>m. reraise e = ValueError (''Invalid XML syntax: '' @ m))
   \<or> (\<exists>m. reraise e = ValueError (''Failed to parse WSDL: '' @ m))"
  by (cases e) simp_all

text \<open>
  C10. Whatever the document and whatever the prefix table of the parser object, \<open>parse\<close>
  returns a descriptor or raises a \<open>ValueError\<close> whose message starts with
  \<open>Invalid XML syntax:\<close> or with \<open>Failed to parse WSDL:\<close>. An \<open>XMLSyntaxError\<close> of the XML
  parser gets the first prefix, any other exception the second.
\<close>

theorem parse_raises_only_ValueError:
  "((\<exists>d. fst (parse xp nsm parsed) = Inr d)
    \<or> (\<exists>m. fst (parse xp nsm parsed) = Inl (ValueError (''Invalid XML syntax: '' @ m)))
    \<or> (\<exists>m. fst (parse xp nsm parsed) = Inl (ValueError (''Failed to parse WSDL: '' @ m))))
   \<and> fst (parse xp nsm (Inl (XMLSyntaxError msg))) = Inl (ValueError (''Invalid XML syntax: '' @ msg))
   \<and> fst (parse xp nsm (Inl (OtherException msg))) = Inl (ValueError (''Failed to parse WSDL: '' @ msg))"
proof -
  have shape: "(\<exists>d. r = Inr d)
      \<or> (\<exists>m. r = Inl (ValueError (''Invalid XML syntax: '' @ m)))
      \<or> (\<exists>m. r = Inl (ValueError (''Failed to parse WSDL: '' @ m)))"
    if "r = (case body of Inl e \<Rightarrow> Inl (reraise e) | Inr d \<Rightarrow> Inr d)"
    for r body :: "exn + service_info"
    using that reraise_cases by (cases body) auto
  have "(\<exists>d. fst (parse xp nsm parsed) = Inr d)
      \<or> (\<exists>m. fst (parse xp nsm parsed) = Inl (ValueError (''Invalid XML syntax: '' @ m)))
      \<or> (\<exists>m. fst (parse xp nsm parsed) = Inl (ValueError (''Failed to parse WSDL: '' @ m)))"
  proof (cases parsed)
    case (Inl e)
    then have "fst (parse xp nsm parsed)
        = (case (Inl e :: exn + service_info) of Inl e \<Rightarrow> Inl (reraise e) | Inr d \<Rightarrow> Inr d)"
      by (simp add: parse_def)
    then show ?thesis by (rule shape)
  next
    case (Inr root)
    then show ?thesis
      by (intro shape) (simp add: parse_def Let_def)
  qed
  moreover have "fst (parse xp nsm (Inl (XMLSyntaxError msg)))
      = Inl (ValueError (''Invalid XML syntax: '' @ msg))"
    by (simp add: parse_def)
  moreover have "fst (parse xp nsm (Inl (OtherException msg)))
      = Inl (ValueError (''Failed to parse WSDL: '' @ msg))"
    by (simp add: parse_def)
  ultimately show ?thesis by blast
qed

subsection \<open>The two scalar tables\<close>

lemma kind_table:
  "py_item (dict_get openapi_type_mapping k (PyDict [(Some ''type'', PyStr ''string'')])) ''type''
     = Some (PyStr (dict_get xsd_type_mapping k ''string''))"
  by (simp add: dict_get_def openapi_type_mapping_def xsd_type_mapping_def)

text \<open>
  C9. For every input, a string or \<open>None\<close>, the \<open>type\<close> entry of the schema that the
  generator's mapper returns is the kind that the parser's mapper returns.
\<close>

theorem scalar_kinds_agree:
  "py_item (map_type_to_openapi t) ''type'' = Some (PyStr (map_xsd_type t))"
  by (simp add: map_type_to_openapi_def map_xsd_type_def kind_table)

text \<open>
  C2. The mapper lower-cases the name before the lookup, and four keys of its table are
  written in camel case, so they are never found: \<open>dateTime\<close>, \<open>base64Binary\<close>,
  \<open>hexBinary\<close> and \<open>anyURI\<close> come out as the default \<open>{"type": "string"}\<close>, without
  the format the table lists for them.
\<close>

theorem camel_case_names_lose_their_format:
  "map_type_to_openapi (Some ''xsd:dateTime'') = PyDict [(Some ''type'', PyStr ''string'')]
   \<and> map_type_to_openapi (Some ''dateTime'') = PyDict [(Some ''type'', PyStr ''string'')]
   \<and> map_type_to_openapi (Some ''base64Binary'') = PyDict [(Some ''type'', PyStr ''string'')]
   \<and> map_type_to_openapi (Some ''hexBinary'') = PyDict [(Some ''type'', PyStr ''string'')]
   \<and> map_type_to_openapi (Some ''anyURI'') = PyDict [(Some ''type'', PyStr ''string'')]"
  by code_simp

subsection \<open>Message schemas\<close>

text \<open>
  C6. A part without a \<open>name\<close> attribute reaches the generator as a dict that holds the key
  \<open>name\<close> with the value \<open>None\<close>, so \<open>part.get('name', 'parameter')\<close> gives \<open>None\<close>: the
  property of the input schema is stored under \<open>None\<close> and \<open>None\<close> is what \<open>required\<close>
  lists; the output schema stores under \<open>None\<close> as well, not under \<open>result\<close>.
\<close>

theorem nameless_part_is_stored_under_None:
  "parse_message (dict_set init_namespaces ''tns'' (Some ''urn:users''))
     (Element wsdl_ns ''message'' [(''name'', ''GetUserRequest'')] None
        [Element wsdl_ns ''part'' [(''type'', ''xsd:int'')] None []])
     = Inr \<lparr>msg_name = Some ''GetUserRequest'',
             msg_parts = [[(''name'', None), (''element'', None), (''type'', Some ''xsd:int'')]]\<rparr>
   \<and> generate_input_schema
        (Some \<lparr>msg_name = Some ''GetUserRequest'',
               msg_parts = [[(''name'', None), (''element'', None), (''type'', Some ''xsd:int'')]]\<rparr>)
     = PyDict [(Some ''type'', PyStr ''object''),
               (Some ''properties'',
                  PyDict [(None, PyDict [(Some ''type'', PyStr ''integer''),
                                         (Some ''format'', PyStr ''int32'')])]),
               (Some ''required'', PyList [PyNone])]
   \<and> generate_output_schema
        (Some \<lparr>msg_name = Some ''GetUserRequest'',
               msg_parts = [[(''name'', None), (''element'', None), (''type'', Some ''xsd:int'')]]\<rparr>)
     = PyDict [(Some ''type'', PyStr ''object''),
               (Some ''properties'',
                  PyDict [(None, PyDict [(Some ''type'', PyStr ''integer''),
                                         (Some ''format'', PyStr ''int32'')])])]"
  by code_simp

subsection \<open>The prefix table across calls\<close>

text \<open>
  C7, as amended. The prefix table is held by the parser object; a call of \<open>parse\<close>
  overwrites its \<open>tns\<close> entry when the document has a non-empty \<open>targetNamespace\<close> and
  leaves the table unchanged otherwise (a document without one, or an input that the XML
  parser rejects), so every table the object can hold is the initial one with some \<open>tns\<close>
  entry. For a document with a non-empty \<open>targetNamespace\<close> the result of \<open>parse\<close>, and
  the table afterwards, are the same on a parser that has parsed other documents as on a
  new one; so is the result for an input that the XML parser rejects.
\<close>

theorem parse_ignores_earlier_parses:
  assumes "truthy (attr root ''targetNamespace'')"
  shows "parse xp (dict_set init_namespaces ''tns'' t) (Inr root) = parse xp init_namespaces (Inr root)
    \<and> snd (parse xp init_namespaces (Inr root))
        = dict_set init_namespaces ''tns'' (attr root ''targetNamespace'')
    \<and> parse xp (dict_set init_namespaces ''tns'' t) (Inl e) = (Inl (reraise e), dict_set init_namespaces ''tns'' t)
    \<and> (\<exists>t'. snd (parse xp (dict_set init_namespaces ''tns'' t) parsed) = dict_set init_namespaces ''tns'' t')
    \<and> snd (parse xp nsm (Inr root)) = dict_set nsm ''tns'' (attr root ''targetNamespace'')
    \<and> (\<not> truthy (attr other ''targetNamespace'') \<longrightarrow> snd (parse xp nsm (Inr other)) = nsm)
    \<and> parse xp nsm (Inl e) = (Inl (reraise e), nsm)"
proof -
  have same: "parse xp (dict_set init_namespaces ''tns'' t) (Inr root) = parse xp init_namespaces (Inr root)"
    using assms by (simp add: parse_def Let_def table_again)
  have after: "snd (parse xp init_namespaces (Inr root))
      = dict_set init_namespaces ''tns'' (attr root ''targetNamespace'')"
    using assms by (simp add: parse_def Let_def)
  have raised: "parse xp (dict_set init_namespaces ''tns'' t) (Inl e)
      = (Inl (reraise e), dict_set init_namespaces ''tns'' t)"
    by (simp add: parse_def)
  have closed: "\<exists>t'. snd (parse xp (dict_set init_namespaces ''tns'' t) parsed)
      = dict_set init_namespaces ''tns'' t'"
  proof (cases parsed)
    case (Inl e')
    then show ?thesis by (auto simp: parse_def)
  next
    case (Inr r)
    then show ?thesis
      by (cases "truthy (attr r ''targetNamespace'')") (auto simp: parse_def Let_def table_again)
  qed
  have overwritten: "snd (parse xp nsm (Inr root)) = dict_set nsm ''tns'' (attr root ''targetNamespace'')"
    using assms by (simp add: parse_def Let_def)
  have unchanged: "\<not> truthy (attr other ''targetNamespace'') \<longrightarrow> snd (parse xp nsm (Inr other)) = nsm"
    by (simp add: parse_def Let_def)
  have rejected: "parse xp nsm (Inl e) = (Inl (reraise e), nsm)"
    by (simp add: parse_def)
  from same after raised closed overwritten unchanged rejected show ?thesis
    by (intro conjI)
qed

theorem parse_ignores_earlier_parses_witness:
  "parse xpath_engine_example (dict_set init_namespaces ''tns'' (Some ''urn:other'')) (Inr user_wsdl)
     = parse xpath_engine_example init_namespaces (Inr user_wsdl)
   \<and> snd (parse xpath_engine_example init_namespaces (Inr user_wsdl))
     = dict_set init_namespaces ''tns'' (Some ''urn:users'')
   \<and> snd (parse xpath_engine_example (dict_set init_namespaces ''tns'' (Some ''urn:other''))
          (Inr user_wsdl))
     = dict_set (dict_set init_namespaces ''tns'' (Some ''urn:other'')) ''tns'' (Some ''urn:users'')
   \<and> snd (parse xpath_engine_example (dict_set init_namespaces ''tns'' (Some ''urn:other''))
          (Inr bare_wsdl))
     = dict_set init_namespaces ''tns'' (Some ''urn:other'')"
proof -
  have a: "attr user_wsdl ''targetNamespace'' = Some ''urn:users''"
    by code_simp
  have b: "attr bare_wsdl ''targetNamespace'' = None"
    by code_simp
  from a have "truthy (attr user_wsdl ''targetNamespace'')"
    by simp
  from parse_ignores_earlier_parses [OF this, where xp = xpath_engine_example
      and t = "Some ''urn:other''" and other = bare_wsdl
      and nsm = "dict_set init_namespaces ''tns'' (Some ''urn:other'')"] a b
  show ?thesis by (simp add: table_again)
qed

text \<open>The claim as first stated fails. The table is state of the parser object, which a
  call changes; and a document without \<open>targetNamespace\<close> is rejected by a new parser,
  whose table still binds \<open>tns\<close> to \<open>None\<close>, and yields a descriptor once a document
  with a \<open>targetNamespace\<close> has gone through the same parser.\<close>

theorem stale_prefix_table_counterexample:
  "fst (parse xpath_engine_example init_namespaces (Inr bare_wsdl))
     = Inl (ValueError ''Failed to parse WSDL: setting default namespace is not supported in XPath'')
   \<and> snd (parse xpath_engine_example init_namespaces (Inr user_wsdl))
     = dict_set init_namespaces ''tns'' (Some ''urn:users'')
   \<and> fst (parse xpath_engine_example (snd (parse xpath_engine_example init_namespaces (Inr user_wsdl)))
          (Inr bare_wsdl))
     = Inr \<lparr>info_name = ''UnknownService'',
             info_description = ''SOAP Web Service converted from WSDL'',
             info_target_namespace = None, info_operations = [], info_types = [],
             info_bindings = [], info_services = []\<rparr>"
proof -
  have first: "fst (parse xpath_engine_example init_namespaces (Inr bare_wsdl))
      = Inl (ValueError ''Failed to parse WSDL: setting default namespace is not supported in XPath'')"
    by code_simp
  have "attr user_wsdl ''targetNamespace'' = Some ''urn:users''"
    by code_simp
  then have table: "snd (parse xpath_engine_example init_namespaces (Inr user_wsdl))
      = dict_set init_namespaces ''tns'' (Some ''urn:users'')"
    by (simp add: parse_def Let_def)
  have second: "fst (parse xpath_engine_example (dict_set init_namespaces ''tns'' (Some ''urn:users''))
          (Inr bare_wsdl))
      = Inr \<lparr>info_name = ''UnknownService'',
             info_description = ''SOAP Web Service converted from WSDL'',
             info_target_namespace = None, info_operations = [], info_types = [],
             info_bindings = [], info_services = []\<rparr>"
    by code_simp
  from first table second show ?thesis
    by (simp only:)
qed

subsection \<open>Message references\<close>

text \<open>
  C5. The message name of \<open>quoted_wsdl\<close> is pasted into the XPath text unescaped. When the
  engine rejects that text, the exception ends the whole parse: the input does not become
  \<open>None\<close>, and no descriptor is returned.
\<close>

theorem quote_in_message_name_aborts_parse:
  assumes \<open>xp ''//wsdl:message[@name="Get"Req"]'' quoted_wsdl = Inl e\<close>
  shows "fst (parse xp init_namespaces (Inr quoted_wsdl)) = Inl (reraise e)"
  using assms
  by (simp add: parse_def extract_service_info_def get_service_name_def
      get_service_description_def extract_operations_def extract_operation_def
      get_element_documentation_def extract_message_info_def xpath_message_def
      message_query_def xpath_all_def xpath_desc_def resolve_prefix_def bind_exn_def
      init_namespaces_def quoted_wsdl_def wsdl_ns_def has_tag_def attr_def attr_default_def
      strip_prefix_def Let_def)

theorem quote_in_message_name_aborts_parse_witness:
  "fst (parse xpath_engine_example init_namespaces (Inr quoted_wsdl))
     = Inl (ValueError ''Failed to parse WSDL: Invalid predicate'')"
  using quote_in_message_name_aborts_parse [of xpath_engine_example "XPathEvalError ''Invalid predicate''"]
  by (simp add: xpath_engine_example_def)

subsection \<open>Servers\<close>

lemma find_append_cases:
  "find P (xs @ ys) = (case find P xs of None \<Rightarrow> find P ys | Some x \<Rightarrow> Some x)"
  by (induction xs) simp_all

lemma base_url_of_ports_find:
  "base_url_of_ports urlparse ports = Inr r \<Longrightarrow>
     r = map_option (base_of urlparse) (find (is_absolute_url urlparse) (map port_location ports))"
proof (induction ports)
  case Nil
  then show ?case by simp
next
  case (Cons p ports)
  show ?case
  proof (cases "truthy (port_location p)")
    case False
    then have "\<not> is_absolute_url urlparse (port_location p)"
      by (simp add: is_absolute_url_def)
    with False Cons show ?thesis by simp
  next
    case True
    with Cons.prems obtain scheme netloc where
      up: "urlparse (the (port_location p)) = Inr (scheme, netloc)"
      and rest: "(if scheme \<noteq> [] \<and> netloc \<noteq> [] then Inr (Some (scheme @ ''://'' @ netloc))
                  else base_url_of_ports urlparse ports) = Inr r"
      by (auto simp: bind_exn_Inr)
    show ?thesis
    proof (cases "scheme \<noteq> [] \<and> netloc \<noteq> []")
      case True
      with up \<open>truthy (port_location p)\<close> have "is_absolute_url urlparse (port_location p)"
        by (simp add: is_absolute_url_def)
      with True rest up show ?thesis
        by (simp add: base_of_def)
    next
      case False
      with rest have "base_url_of_ports urlparse ports = Inr r" by simp
      moreover from False up have "\<not> is_absolute_url urlparse (port_location p)"
        by (simp add: is_absolute_url_def)
      ultimately show ?thesis using Cons.IH by simp
    qed
  qed
qed

lemma extract_base_url_find:
  "extract_base_url urlparse services = Inr u \<Longrightarrow>
     u = (case find (is_absolute_url urlparse) (port_locations services) of
            Some l \<Rightarrow> base_of urlparse l
          | None \<Rightarrow> ''https://example.com'')"
proof (induction services)
  case Nil
  then show ?case by (simp add: port_locations_def)
next
  case (Cons s services)
  from Cons.prems obtain found where
    f: "base_url_of_ports urlparse (service_ports s) = Inr found"
    and rest: "(case found of Some url \<Rightarrow> Inr url | None \<Rightarrow> extract_base_url urlparse services) = Inr u"
    by (auto simp: bind_exn_Inr)
  note ff = base_url_of_ports_find [OF f]
  have pl: "port_locations (s # services) = map port_location (service_ports s) @ port_locations services"
    by (simp add: port_locations_def)
  show ?case
  proof (cases found)
    case None
    with rest have "extract_base_url urlparse services = Inr u" by simp
    from Cons.IH [OF this] ff None show ?thesis
      by (simp add: pl find_append_cases)
  next
    case (Some url)
    with rest ff show ?thesis
      by (auto simp: pl find_append_cases split: option.splits)
  qed
qed

lemma base_url_nonempty: "extract_base_url urlparse services = Inr u \<Longrightarrow> u \<noteq> []"
proof -
  assume a: "extract_base_url urlparse services = Inr u"
  have "base_of urlparse l \<noteq> []" if "find (is_absolute_url urlparse) xs = Some l" for xs l
  proof -
    from that have "is_absolute_url urlparse l"
      by (auto simp: find_Some_iff)
    then show ?thesis
      by (auto simp: is_absolute_url_def base_of_def split: sum.splits)
  qed
  with extract_base_url_find [OF a] show ?thesis
    by (auto split: option.splits)
qed

text \<open>
  C1, as amended. Whenever \<open>generate\<close> returns, the server list holds exactly one entry. Its
  URL is \<open>scheme://netloc\<close> of the first location, in the order services, ports, that is
  non-empty and parses with both a scheme and a network location; when there is no such
  location, it is the placeholder \<open>https://example.com\<close>.
\<close>

theorem servers_hold_one_entry:
  assumes "generate urlparse d = Inr spec"
  shows "py_item spec ''servers'' =
           Some (PyList [PyDict
             [(Some ''url'',
                 PyStr (case find (is_absolute_url urlparse) (port_locations (info_services d)) of
                          Some l \<Rightarrow> base_of urlparse l
                        | None \<Rightarrow> ''https://example.com'')),
              (Some ''description'', PyStr ''SOAP Service Endpoint'')]])"
proof -
  from assms obtain u where u: "extract_base_url urlparse (info_services d) = Inr u"
    and spec: "py_item spec ''servers'' =
        Some (if u \<noteq> [] then PyList [PyDict [(Some ''url'', PyStr u),
                                   (Some ''description'', PyStr ''SOAP Service Endpoint'')]]
              else PyList [])"
    by (auto simp: generate_def bind_exn_Inr)
  from base_url_nonempty [OF u] extract_base_url_find [OF u] spec show ?thesis
    by simp
qed

theorem servers_hold_one_entry_witness:
  "py_item (projr (generate urlparse_example two_port_info)) ''servers'' =
     Some (PyList [PyDict [(Some ''url'', PyStr ''http://example.org''),
                           (Some ''description'', PyStr ''SOAP Service Endpoint'')]])"
proof -
  have "\<exists>spec. generate urlparse_example two_port_info = Inr spec"
    by (simp add: generate_def two_port_info_def urlparse_example_def bind_exn_def)
  then obtain spec where s: "generate urlparse_example two_port_info = Inr spec" ..
  from servers_hold_one_entry [OF s] s show ?thesis
    by (simp add: two_port_info_def port_locations_def is_absolute_url_def base_of_def
        urlparse_example_def)
qed

text \<open>The claim as first stated fails: no location of \<open>relative_info\<close> is an absolute URL,
  and the server list is not empty.\<close>

theorem placeholder_server_counterexample:
  "find (is_absolute_url urlparse_example) (port_locations (info_services relative_info)) = None
   \<and> generate urlparse_example relative_info =
       Inr (PyDict
         [(Some ''openapi'', PyStr ''3.0.0''),
          (Some ''info'', PyDict
             [(Some ''title'', PyStr ''UserService''),
              (Some ''description'', PyStr ''User directory''),
              (Some ''version'', PyStr ''1.0.0''),
              (Some ''contact'', PyDict [(Some ''name'', PyStr ''API Support'')])]),
          (Some ''servers'',
             PyList [PyDict [(Some ''url'', PyStr ''https://example.com''),
                             (Some ''description'', PyStr ''SOAP Service Endpoint'')]]),
          (Some ''paths'', PyDict []),
          (Some ''components'', PyDict
             [(Some ''schemas'', PyDict []),
              (Some ''securitySchemes'', PyDict [])]),
          (Some ''tags'', PyList
             [PyDict [(Some ''name'', PyStr ''SOAP Operations''),
                      (Some ''description'', PyStr ''SOAP web service operations'')]])])"
  by code_simp


subsection \<open>Paths\<close>
















subsection \<open>The service description\<close>

lemma first_of_filter:
  "(case filter P xs of d # rest \<Rightarrow> f d | [] \<Rightarrow> c) = (case find P xs of None \<Rightarrow> c | Some e \<Rightarrow> f e)"
  by (induction xs) simp_all

lemma get_service_description_first:
  assumes "get_service_description (dict_set init_namespaces ''tns'' t) root = Inr description"
  shows "description =
     (case find (has_tag wsdl_ns ''documentation'') (root # descendants root) of
        None \<Rightarrow> ''SOAP Web Service converted from WSDL''
      | Some e \<Rightarrow> if truthy (elem_text e) then the (elem_text e) else ''No description available'')"
proof (cases "xpath_all (dict_set init_namespaces ''tns'' t) root ''wsdl'' ''documentation''")
  case (Inl e)
  with assms show ?thesis
    by (simp add: get_service_description_def bind_exn_def)
next
  case (Inr docs)
  with assms have "description = (case docs of
               d # _ \<Rightarrow> (if truthy (elem_text d) then the (elem_text d)
                          else ''No description available'')
             | [] \<Rightarrow> ''SOAP Web Service converted from WSDL'')"
    by (auto simp: get_service_description_def bind_exn_def split: list.splits)
  also from xpath_all_wsdl [OF Inr]
  have "docs = filter (has_tag wsdl_ns ''documentation'') (root # descendants root)" .
  finally show ?thesis
    by (simp only: first_of_filter)
qed

text \<open>
  C4, as amended. For a document that parses, the description comes from the first
  \<open>documentation\<close> element of the document: it is the literal
  \<open>No description available\<close> when that element has no text, and the text itself when
  the text is non-empty and has no whitespace around it. Without any \<open>documentation\<close>
  element it is the literal \<open>SOAP Web Service converted from WSDL\<close>.
\<close>

theorem description_of_first_documentation:
  assumes "fst (parse xp (dict_set init_namespaces ''tns'' t) (Inr root)) = Inr d"
  shows "case find (has_tag wsdl_ns ''documentation'') (root # descendants root) of
           None \<Rightarrow> info_description d = ''SOAP Web Service converted from WSDL''
         | Some e \<Rightarrow>
             (\<not> truthy (elem_text e) \<longrightarrow> info_description d = ''No description available'')
             \<and> (\<forall>txt. elem_text e = Some txt \<and> txt \<noteq> [] \<and> strip txt = txt
                   \<longrightarrow> info_description d = txt)"
proof -
  from parse_Inr [OF assms] obtain t' where
    "extract_service_info xp (dict_set init_namespaces ''tns'' t') root
       (attr root ''targetNamespace'') = Inr d" ..
  from get_service_description_first [OF extract_service_info_Inr(1) [OF this]]
  show ?thesis
    by (auto split: option.splits)
qed

theorem description_of_first_documentation_witness:
  "info_description (projr (fst (parse xpath_engine_example init_namespaces (Inr user_wsdl))))
     = ''User directory''"
proof -
  have "\<not> isl (fst (parse xpath_engine_example init_namespaces (Inr user_wsdl)))"
    by code_simp
  then have h: "fst (parse xpath_engine_example (dict_set init_namespaces ''tns'' None) (Inr user_wsdl))
      = Inr (projr (fst (parse xpath_engine_example init_namespaces (Inr user_wsdl))))"
    by (simp add: table_None)
  have f: "find (has_tag wsdl_ns ''documentation'') (user_wsdl # descendants user_wsdl)
      = Some (Element wsdl_ns ''documentation'' [] (Some ''User directory'') [])"
    by code_simp
  have s: "strip ''User directory'' = ''User directory''"
    by code_simp
  note description_of_first_documentation [OF h, unfolded f]
  with s show ?thesis
    by simp
qed

text \<open>The claim as first stated fails: an empty first \<open>documentation\<close> element gives the
  literal \<open>No description available\<close>, and a text with blanks around it is kept as it is.\<close>

theorem description_counterexample:
  "fst (parse xpath_engine_example init_namespaces (Inr empty_documentation_wsdl))
     = Inr \<lparr>info_name = ''UnknownService'', info_description = ''No description available'',
             info_target_namespace = Some ''urn:users'', info_operations = [], info_types = [],
             info_bindings = [], info_services = []\<rparr>
   \<and> fst (parse xpath_engine_example init_namespaces (Inr padded_documentation_wsdl))
     = Inr \<lparr>info_name = ''UnknownService'', info_description = ''  User directory  '',
             info_target_namespace = Some ''urn:users'', info_operations = [], info_types = [],
             info_bindings = [], info_services = []\<rparr>
   \<and> strip ''  User directory  '' = ''User directory''"
  by code_simp

subsection \<open>The type catalogue\<close>

lemma table_xsd:
  "resolve_prefix (dict_set init_namespaces ''tns'' t) ''xsd'' = Inr xsd_ns"
  by (simp add: init_namespaces_def resolve_prefix_def xsd_ns_def)

lemma xpath_all_xsd:
  "xpath_all (dict_set init_namespaces ''tns'' t) root ''xsd'' name = Inr found \<Longrightarrow>
     found = filter (has_tag xsd_ns name) (root # descendants root)"
  by (auto simp: xpath_all_def bind_exn_Inr table_xsd)

lemma xpath_desc_xsd:
  "xpath_desc (dict_set init_namespaces ''tns'' t) e ''xsd'' name = Inr found \<Longrightarrow>
     found = filter (has_tag xsd_ns name) (descendants e)"
  by (auto simp: xpath_desc_def bind_exn_Inr table_xsd)

lemma fold_exn_append:
  "fold_exn f (xs @ ys) s = bind_exn (fold_exn f xs s) (fold_exn f ys)"
  by (induction xs arbitrary: s) (simp_all add: bind_exn_def split: sum.splits)

lemma store_all_append:
  "store_all nsm (xs @ ys) types = bind_exn (store_all nsm xs types) (store_all nsm ys)"
  unfolding store_all_def by (rule fold_exn_append)

lemma bind_exn_Inr_left: "bind_exn (Inr x) f = f x"
  by (simp add: bind_exn_def)

lemma bind_exn_assoc: "bind_exn (bind_exn m f) g = bind_exn m (\<lambda>x. bind_exn (f x) g)"
  by (cases m) (simp_all add: bind_exn_def)

lemma store_named_as_store_all:
  assumes "\<And>e. parse_definition nsm (kind, e) = parse_one e"
  shows "store_named parse_one nodes types = store_all nsm (map (Pair kind) (filter named nodes)) types"
proof (induction nodes arbitrary: types)
  case Nil
  then show ?case by (simp add: store_named_def store_all_def)
next
  case (Cons e nodes)
  show ?case
  proof (cases "truthy (attr e ''name'')")
    case True
    then have "store_named parse_one (e # nodes) types =
        bind_exn (parse_one e) (\<lambda>d. store_named parse_one nodes (dict_set types (the (attr e ''name'')) d))"
      by (simp add: store_named_def bind_exn_assoc bind_exn_Inr_left)
    also have "\<dots> = bind_exn (parse_one e) (\<lambda>d.
        store_all nsm (map (Pair kind) (filter named nodes)) (dict_set types (the (attr e ''name'')) d))"
      by (simp add: Cons.IH)
    also have "\<dots> = store_all nsm (map (Pair kind) (filter named (e # nodes))) types"
      using True by (simp add: named_def store_all_def assms bind_exn_assoc bind_exn_Inr_left)
    finally show ?thesis .
  next
    case False
    then have "store_named parse_one (e # nodes) types = store_named parse_one nodes types"
      by (simp add: store_named_def bind_exn_Inr_left)
    with False Cons.IH show ?thesis
      by (simp add: named_def)
  qed
qed

lemma extract_schema_types_as_store_all:
  assumes "extract_schema_types (dict_set init_namespaces ''tns'' t) schema types = Inr types'"
  shows "store_all (dict_set init_namespaces ''tns'' t) (schema_definitions schema) types = Inr types'"
proof -
  let ?nsm = "dict_set init_namespaces ''tns'' t"
  from assms obtain cts types1 sts types2 els where
    cts: "xpath_desc ?nsm schema ''xsd'' ''complexType'' = Inr cts"
    and s1: "store_named (parse_complex_type ?nsm) cts types = Inr types1"
    and sts: "xpath_desc ?nsm schema ''xsd'' ''simpleType'' = Inr sts"
    and s2: "store_named (parse_simple_type ?nsm) sts types1 = Inr types2"
    and els: "xpath_desc ?nsm schema ''xsd'' ''element'' = Inr els"
    and s3: "store_named (\<lambda>e. Inr (parse_element e)) els types2 = Inr types'"
    unfolding extract_schema_types_def bind_exn_Inr by blast
  from s1 have a1: "store_all ?nsm (map (Pair ComplexKind) (filter named cts)) types = Inr types1"
    by (simp add: store_named_as_store_all [where kind = ComplexKind and nsm = ?nsm])
  from s2 have a2: "store_all ?nsm (map (Pair SimpleKind) (filter named sts)) types1 = Inr types2"
    by (simp add: store_named_as_store_all [where kind = SimpleKind and nsm = ?nsm])
  from s3 have a3: "store_all ?nsm (map (Pair ElementKind) (filter named els)) types2 = Inr types'"
    by (simp add: store_named_as_store_all [where kind = ElementKind and nsm = ?nsm])
  from a1 a2 a3 show ?thesis
    unfolding schema_definitions_def xpath_desc_xsd [OF cts, symmetric]
      xpath_desc_xsd [OF sts, symmetric] xpath_desc_xsd [OF els, symmetric]
    by (simp add: store_all_append bind_exn_def)
qed

lemma fold_schemas_as_store_all:
  "fold_exn (extract_schema_types (dict_set init_namespaces ''tns'' t)) schemas types = Inr types' \<Longrightarrow>
     store_all (dict_set init_namespaces ''tns'' t) (concat (map schema_definitions schemas)) types
       = Inr types'"
proof (induction schemas arbitrary: types)
  case Nil
  then show ?case by (simp add: store_all_def)
next
  case (Cons schema schemas)
  from Cons.prems obtain types1 where
    one: "extract_schema_types (dict_set init_namespaces ''tns'' t) schema types = Inr types1"
    and rest: "fold_exn (extract_schema_types (dict_set init_namespaces ''tns'' t)) schemas types1 = Inr types'"
    by (auto simp: bind_exn_Inr)
  from extract_schema_types_as_store_all [OF one] Cons.IH [OF rest] show ?case
    by (simp add: store_all_append bind_exn_def)
qed

lemma extract_types_as_store_all:
  assumes "extract_types (dict_set init_namespaces ''tns'' t) root = Inr types"
  shows "store_all (dict_set init_namespaces ''tns'' t) (catalogue_order root) [] = Inr types"
proof -
  from assms obtain schemas where
    schemas: "xpath_all (dict_set init_namespaces ''tns'' t) root ''xsd'' ''schema'' = Inr schemas"
    and f: "fold_exn (extract_schema_types (dict_set init_namespaces ''tns'' t)) schemas [] = Inr types"
    by (auto simp: extract_types_def bind_exn_Inr)
  from fold_schemas_as_store_all [OF f] xpath_all_xsd [OF schemas] show ?thesis
    by (simp add: catalogue_order_def)
qed

lemma catalogue_order_named: "list_all (\<lambda>def. named (snd def)) (catalogue_order root)"
  by (auto simp: catalogue_order_def schema_definitions_def list_all_iff)

lemma store_all_last_wins:
  "store_all nsm defs types = Inr types' \<Longrightarrow> list_all (\<lambda>def. named (snd def)) defs \<Longrightarrow>
     map_option Inr (map_of types' n) =
       (case filter (\<lambda>def. attr (snd def) ''name'' = Some n) defs of
          [] \<Rightarrow> map_option Inr (map_of types n)
        | d # ds \<Rightarrow> Some (parse_definition nsm (last (d # ds))))"
proof (induction defs arbitrary: types)
  case Nil
  then show ?case by (simp add: store_all_def)
next
  case (Cons def defs)
  from Cons.prems(1) obtain td where
    td: "parse_definition nsm def = Inr td"
    and rest: "store_all nsm defs (dict_set types (the (attr (snd def) ''name'')) td) = Inr types'"
    by (auto simp: store_all_def bind_exn_Inr)
  from Cons.prems(2) obtain m where m: "attr (snd def) ''name'' = Some m"
    by (cases "attr (snd def) ''name''") (simp_all add: named_def)
  from Cons.prems(2) have "list_all (\<lambda>def. named (snd def)) defs" by simp
  note ih = Cons.IH [OF rest this]
  show ?case
  proof (cases "filter (\<lambda>def. attr (snd def) ''name'' = Some n) defs")
    case Nil
    with ih td m show ?thesis
      by (simp add: map_of_dict_set)
  next
    case (Cons d ds)
    with ih show ?thesis
      by simp
  qed
qed

text \<open>
  C8, as amended. When the catalogue is built, the entry under a name is the definition
  stored last under it, in the order of \<open>catalogue_order\<close>: schemas in document order,
  and inside one schema complex types before simple types before elements. A name that
  no definition carries has no entry.
\<close>

theorem catalogue_last_stored_wins:
  assumes "extract_types (dict_set init_namespaces ''tns'' t) root = Inr types"
  shows "map_option Inr (map_of types n) =
       (case filter (\<lambda>def. attr (snd def) ''name'' = Some n) (catalogue_order root) of
          [] \<Rightarrow> None
        | d # ds \<Rightarrow> Some (parse_definition (dict_set init_namespaces ''tns'' t) (last (d # ds))))"
  using store_all_last_wins [OF extract_types_as_store_all [OF assms] catalogue_order_named, of n]
  by (simp split: list.splits)

theorem catalogue_last_stored_wins_witness:
  "map_of [(''Item'', ElementType ''integer'' ''xsd:int'')] ''Item''
     = Some (parse_element
         (Element xsd_ns ''element'' [(''name'', ''Item''), (''type'', ''xsd:int'')] None []))"
proof -
  have h: "extract_types (dict_set init_namespaces ''tns'' (Some ''urn:users'')) item_schema_wsdl
      = Inr [(''Item'', ElementType ''integer'' ''xsd:int'')]"
    by code_simp
  have o: "filter (\<lambda>def. attr (snd def) ''name'' = Some ''Item'') (catalogue_order item_schema_wsdl)
      = [(ComplexKind, Element xsd_ns ''complexType'' [(''name'', ''Item'')] None []),
         (ElementKind, Element xsd_ns ''element'' [(''name'', ''Item''), (''type'', ''xsd:int'')] None [])]"
    by code_simp
  note catalogue_last_stored_wins [OF h, of "''Item''", unfolded o]
  then show ?thesis
    by simp
qed

text \<open>The claim as first stated fails: the complex type \<open>Item\<close> is the last definition of
  the document, and the catalogue holds the element \<open>Item\<close> that stands before it.\<close>

theorem document_order_counterexample:
  "extract_types (dict_set init_namespaces ''tns'' (Some ''urn:users'')) item_schema_wsdl
     = Inr [(''Item'', ElementType ''integer'' ''xsd:int'')]
   \<and> last (descendants item_schema_wsdl)
     = Element xsd_ns ''complexType'' [(''name'', ''Item'')] None []
   \<and> parse_complex_type (dict_set init_namespaces ''tns'' (Some ''urn:users''))
       (Element xsd_ns ''complexType'' [(''name'', ''Item'')] None [])
     = Inr (ComplexType [])"
  by code_simp

end
